theory Spec2Isabelle
  imports Complex_Main
begin

section \<open>JavaScript values used by the library\<close>

text \<open>
  A JavaScript number is a double: not-a-number, one of the two infinities, or a finite
  value. Every finite double is a rational, and the library only compares amounts and
  tests them for integrality, so a finite number is modelled by the rational it denotes.
\<close>

datatype js_number = NaN | PosInfinity | NegInfinity | Finite rat

datatype js_value =
    JSUndefined
  | JSNull
  | JSBoolean bool
  | JSNumber js_number
  | JSString string
  | JSObject

text \<open>
  What can be thrown or passed to \<open>reject\<close>. The first three are the platform's
  errors; the classes from \<open>TradingViewError\<close> on are those of \<open>utils/errors.ts\<close>,
  each with its message and its extra field (\<open>code\<close>, \<open>endpoint\<close>, \<open>symbol\<close>,
  \<open>field\<close>, \<open>timeout\<close>); \<open>ErrorEvent\<close> is the DOM event a WebSocket hands to its
  \<open>error\<close> listener.
\<close>

datatype js_error =
    Error string
  | TypeError string
  | SyntaxError string
  | TradingViewError string "string option"
  | ConnectionError string "string option"
  | AuthenticationError string
  | DataError string "string option"
  | ValidationError string "string option"
  | ProtocolError string
  | TimeoutError string "int option"
  | ErrorEvent



fun typeof :: "js_value \<Rightarrow> string" where
  "typeof JSUndefined = ''undefined''"
| "typeof JSNull = ''object''"
| "typeof (JSBoolean _) = ''boolean''"
| "typeof (JSNumber _) = ''number''"
| "typeof (JSString _) = ''string''"
| "typeof JSObject = ''object''"

fun isInteger :: "js_number \<Rightarrow> bool" where
  "isInteger (Finite q) = (of_int \<lfloor>q\<rfloor> = q)"
| "isInteger _ = False"

text \<open>\<open>x <= y\<close> and \<open>x > y\<close> against a finite constant; any comparison with NaN is false.\<close>

fun js_le :: "js_number \<Rightarrow> rat \<Rightarrow> bool" where
  "js_le (Finite q) c = (q \<le> c)"
| "js_le NegInfinity c = True"
| "js_le PosInfinity c = False"
| "js_le NaN c = False"

fun js_gt :: "js_number \<Rightarrow> rat \<Rightarrow> bool" where
  "js_gt (Finite q) c = (q > c)"
| "js_gt PosInfinity c = True"
| "js_gt NegInfinity c = False"
| "js_gt NaN c = False"

text \<open>
  \<open>a % b\<close> on integers: the sign follows the dividend, and the result is NaN
  (\<open>None\<close>) when the divisor is zero.
\<close>

definition js_rem :: "int \<Rightarrow> int \<Rightarrow> int option" where
  "js_rem a b = (if b = 0 then None else Some (sgn a * (\<bar>a\<bar> mod \<bar>b\<bar>)))"

text \<open>
  \<open>xs.slice(start, stop)\<close>: a negative index counts from the end, and both indices are
  clamped to the array.
\<close>

definition js_slice :: "'a list \<Rightarrow> int \<Rightarrow> int \<Rightarrow> 'a list" where
  "js_slice xs start stop =
     (let len = int (length xs);
          k = (if start < 0 then max (len + start) 0 else min start len);
          final = (if stop < 0 then max (len + stop) 0 else min stop len)
      in take (nat (final - k)) (drop (nat k) xs))"

text \<open>\<open>xs[k]\<close> of an array: \<open>undefined\<close> (\<open>None\<close>) out of range.\<close>

definition js_index :: "'a list \<Rightarrow> nat \<Rightarrow> 'a option" where
  "js_index xs k = (if k < length xs then Some (xs ! k) else None)"

section \<open>Text helpers\<close>

text \<open>
  The decimal digits of a natural number, as a template string prints it, and the
  character classes the library tests for, by character code.
\<close>

definition digit_char :: "nat \<Rightarrow> char" where
  "digit_char d = char_of (48 + d)"

function decimal :: "nat \<Rightarrow> string" where
  "decimal n = (if n < 10 then [digit_char n] else decimal (n div 10) @ [digit_char (n mod 10)])"
  by pat_completeness auto
termination
  by (relation "measure id") auto

definition int_toString :: "int \<Rightarrow> string" where
  "int_toString n = (if n < 0 then CHR ''-'' # decimal (nat (- n)) else decimal (nat n))"

definition is_digit :: "char \<Rightarrow> bool" where
  "is_digit c = (48 \<le> (of_char c :: nat) \<and> (of_char c :: nat) \<le> 57)"







definition startsWith :: "string \<Rightarrow> string \<Rightarrow> bool" where
  "startsWith str pre = (take (length pre) str = pre)"

fun join :: "string \<Rightarrow> string list \<Rightarrow> string" where
  "join sep [] = []"
| "join sep [x] = x"
| "join sep (x # y # rest) = x @ sep @ join sep (y # rest)"

section \<open>JSON text\<close>

text \<open>
  The JSON values the protocol carries, with numbers restricted to integers (the commands
  carry batch sizes; bar values are not computed with). An object is the list of its
  members in enumeration order. \<open>stringify\<close> is \<open>JSON.stringify\<close>: compact, with the
  quotation mark, the backslash and the control characters escaped.
\<close>

datatype json =
    JNull
  | JBool bool
  | JNum int
  | JStr string
  | JArr "json list"
  | JObj "(string \<times> json) list"

definition dq :: char where
  "dq = CHR 0x22"

definition bs :: char where
  "bs = CHR 0x5C"

definition hex_digit :: "nat \<Rightarrow> char" where
  "hex_digit d = (if d < 10 then char_of (48 + d) else char_of (87 + d))"

definition escape_char :: "char \<Rightarrow> string" where
  "escape_char c =
     (let code = (of_char c :: nat) in
      if c = dq then [bs, dq]
      else if c = bs then [bs, bs]
      else if code = 8 then [bs, CHR ''b'']
      else if code = 12 then [bs, CHR ''f'']
      else if code = 10 then [bs, CHR ''n'']
      else if code = 13 then [bs, CHR ''r'']
      else if code = 9 then [bs, CHR ''t'']
      else if code < 32
        then [bs, CHR ''u'', CHR ''0'', CHR ''0'', hex_digit (code div 16), hex_digit (code mod 16)]
      else [c])"

definition quote :: "string \<Rightarrow> string" where
  "quote str = dq # concat (map escape_char str) @ [dq]"

fun stringify :: "json \<Rightarrow> string" where
  "stringify JNull = ''null''"
| "stringify (JBool b) = (if b then ''true'' else ''false'')"
| "stringify (JNum n) = int_toString n"
| "stringify (JStr str) = quote str"
| "stringify (JArr xs) = ''['' @ join '','' (map stringify xs) @ '']''"
| "stringify (JObj kvs) =
     ''{'' @ join '','' (map (\<lambda>kv. quote (fst kv) @ '':'' @ stringify (snd kv)) kvs) @ ''}''"

subsection \<open>Reading JSON text\<close>

text \<open>
  \<open>parse\<close> is \<open>JSON.parse\<close> on the compact texts with integer numbers, the texts
  \<open>stringify\<close> writes: \<open>None\<close> stands for the SyntaxError. White space between tokens,
  fractions, exponents and unicode escapes above \<open>00FF\<close> are outside the model, which has
  no answer for such a text and gives \<open>None\<close> as well. An object is read into the list of
  its members as written.
\<close>

definition digit_value :: "char \<Rightarrow> nat" where
  "digit_value c = of_char c - 48"

definition hex_value :: "char \<Rightarrow> nat option" where
  "hex_value c =
     (let code = (of_char c :: nat) in
      if 48 \<le> code \<and> code \<le> 57 then Some (code - 48)
      else if 97 \<le> code \<and> code \<le> 102 then Some (code - 87)
      else if 65 \<le> code \<and> code \<le> 70 then Some (code - 55)
      else None)"

definition unescape :: "char \<Rightarrow> char option" where
  "unescape c =
     (if c = dq then Some dq
      else if c = bs then Some bs
      else if c = CHR ''/'' then Some (CHR ''/'')
      else if c = CHR ''b'' then Some (CHR 0x08)
      else if c = CHR ''f'' then Some (CHR 0x0C)
      else if c = CHR ''n'' then Some (CHR 0x0A)
      else if c = CHR ''r'' then Some (CHR 0x0D)
      else if c = CHR ''t'' then Some (CHR 0x09)
      else None)"

text \<open>The four hex digits of a unicode escape, when they name a one-byte character.\<close>

definition unicode_escape :: "char \<Rightarrow> char \<Rightarrow> char \<Rightarrow> char \<Rightarrow> char option" where
  "unicode_escape h1 h2 h3 h4 =
     (case (hex_value h1, hex_value h2, hex_value h3, hex_value h4) of
        (Some a, Some b, Some c, Some d) \<Rightarrow>
          if a = 0 \<and> b = 0 then Some (char_of (16 * c + d)) else None
      | _ \<Rightarrow> None)"

text \<open>The characters of a string up to its closing quotation mark, and the text after it.\<close>

fun parse_string_body :: "string \<Rightarrow> (string \<times> string) option" where
  "parse_string_body [] = None"
| "parse_string_body (c # cs) =
     (if c = dq then Some ([], cs)
      else if c = bs then
        (case cs of
           [] \<Rightarrow> None
         | e # r \<Rightarrow>
             if e = CHR ''u'' then
               (case r of
                  h1 # h2 # h3 # h4 # r' \<Rightarrow>
                    (case unicode_escape h1 h2 h3 h4 of
                       None \<Rightarrow> None
                     | Some ch \<Rightarrow>
                         (case parse_string_body r' of
                            None \<Rightarrow> None
                          | Some (str, rest) \<Rightarrow> Some (ch # str, rest)))
                | _ \<Rightarrow> None)
             else
               (case unescape e of
                  None \<Rightarrow> None
                | Some ch \<Rightarrow>
                    (case parse_string_body r of
                       None \<Rightarrow> None
                     | Some (str, rest) \<Rightarrow> Some (ch # str, rest))))
      else if (of_char c :: nat) < 32 then None
      else
        (case parse_string_body cs of
           None \<Rightarrow> None
         | Some (str, rest) \<Rightarrow> Some (c # str, rest)))"

text \<open>A run of digits without a leading zero, as a number.\<close>

definition parse_digits :: "string \<Rightarrow> (nat \<times> string) option" where
  "parse_digits str =
     (let ds = takeWhile is_digit str; rest = dropWhile is_digit str in
      if ds = [] \<or> (length ds > 1 \<and> hd ds = CHR ''0'') then None
      else Some (foldl (\<lambda>n c. 10 * n + digit_value c) 0 ds, rest))"

definition parse_number :: "string \<Rightarrow> (json \<times> string) option" where
  "parse_number str =
     (case str of
        [] \<Rightarrow> None
      | c # r \<Rightarrow>
          if c = CHR ''-'' then
            (case parse_digits r of None \<Rightarrow> None | Some (n, rest) \<Rightarrow> Some (JNum (- int n), rest))
          else
            (case parse_digits str of None \<Rightarrow> None | Some (n, rest) \<Rightarrow> Some (JNum (int n), rest)))"

text \<open>
  The parser proper, by recursive descent. Its first argument bounds the depth of the
  recursion; \<open>parse\<close> starts it with twice the length of the text and two more.
\<close>

fun parse_value :: "nat \<Rightarrow> string \<Rightarrow> (json \<times> string) option"
  and parse_elements :: "nat \<Rightarrow> string \<Rightarrow> (json list \<times> string) option"
  and parse_members :: "nat \<Rightarrow> string \<Rightarrow> ((string \<times> json) list \<times> string) option" where
  "parse_value 0 str = None"
| "parse_value (Suc f) str =
     (if startsWith str ''null'' then Some (JNull, drop 4 str)
      else if startsWith str ''true'' then Some (JBool True, drop 4 str)
      else if startsWith str ''false'' then Some (JBool False, drop 5 str)
      else
        (case str of
           [] \<Rightarrow> None
         | c # r \<Rightarrow>
             if c = dq then
               (case parse_string_body r of
                  None \<Rightarrow> None
                | Some (s, rest) \<Rightarrow> Some (JStr s, rest))
             else if c = CHR ''['' then
               (if startsWith r '']'' then Some (JArr [], drop 1 r)
                else (case parse_elements f r of
                        None \<Rightarrow> None
                      | Some (xs, rest) \<Rightarrow> Some (JArr xs, rest)))
             else if c = CHR ''{'' then
               (if startsWith r ''}'' then Some (JObj [], drop 1 r)
                else (case parse_members f r of
                        None \<Rightarrow> None
                      | Some (kvs, rest) \<Rightarrow> Some (JObj kvs, rest)))
             else parse_number str))"
| "parse_elements 0 str = None"
| "parse_elements (Suc f) str =
     (case parse_value f str of
        None \<Rightarrow> None
      | Some (v, rest) \<Rightarrow>
          (case rest of
             [] \<Rightarrow> None
           | c # r \<Rightarrow>
               if c = CHR '','' then
                 (case parse_elements f r of
                    None \<Rightarrow> None
                  | Some (vs, rest') \<Rightarrow> Some (v # vs, rest'))
               else if c = CHR '']'' then Some ([v], r)
               else None))"
| "parse_members 0 str = None"
| "parse_members (Suc f) str =
     (case str of
        [] \<Rightarrow> None
      | q # r \<Rightarrow>
          if q \<noteq> dq then None
          else
            (case parse_string_body r of
               None \<Rightarrow> None
             | Some (k, rest) \<Rightarrow>
                 (case rest of
                    [] \<Rightarrow> None
                  | colon # r2 \<Rightarrow>
                      if colon \<noteq> CHR '':'' then None
                      else
                        (case parse_value f r2 of
                           None \<Rightarrow> None
                         | Some (v, rest3) \<Rightarrow>
                             (case rest3 of
                                [] \<Rightarrow> None
                              | c # r3 \<Rightarrow>
                                  if c = CHR '','' then
                                    (case parse_members f r3 of
                                       None \<Rightarrow> None
                                     | Some (kvs, rest4) \<Rightarrow> Some ((k, v) # kvs, rest4))
                                  else if c = CHR ''}'' then Some ([(k, v)], r3)
                                  else None)))))"

definition parse :: "string \<Rightarrow> json option" where
  "parse str =
     (case parse_value (2 * length str + 2) str of
        Some (v, []) \<Rightarrow> Some v
      | _ \<Rightarrow> None)"

text \<open>
  A property read \<open>v[key]\<close> on a parsed value other than \<open>null\<close>: the last member of that
  name, since \<open>JSON.parse\<close> keeps the last; \<open>undefined\<close> (\<open>None\<close>) on anything but an
  object. Truthiness is JavaScript's.
\<close>

definition get_prop :: "json \<Rightarrow> string \<Rightarrow> json option" where
  "get_prop v key = (case v of JObj kvs \<Rightarrow> map_of (rev kvs) key | _ \<Rightarrow> None)"

fun json_truthy :: "json \<Rightarrow> bool" where
  "json_truthy JNull = False"
| "json_truthy (JBool b) = b"
| "json_truthy (JNum n) = (n \<noteq> 0)"
| "json_truthy (JStr s) = (s \<noteq> [])"
| "json_truthy (JArr xs) = True"
| "json_truthy (JObj kvs) = True"

section \<open>Validation (\<open>utils/validation.ts\<close>)\<close>

definition validateAmount :: "js_value \<Rightarrow> js_error + unit" where
  "validateAmount amount =
     (if amount \<noteq> JSUndefined then
        (if typeof amount \<noteq> ''number'' then Inl (Error ''Amount must be a number'')
         else
           (case amount of
              JSNumber n \<Rightarrow>
                if \<not> isInteger n then Inl (Error ''Amount must be an integer'')
                else if js_le n 0 then Inl (Error ''Amount must be greater than 0'')
                else if js_gt n 10000
                  then Inl (Error ''Amount cannot exceed 10000 candles per request'')
                else Inr ()
            | _ \<Rightarrow> Inl (Error ''Amount must be a number'')))
      else Inr ())"










section \<open>Error factory (\<open>utils/errors.ts\<close>)\<close>




section \<open>Candle processing (\<open>data/candles.ts\<close>)\<close>

definition MAX_BATCH_SIZE :: int where
  "MAX_BATCH_SIZE = 5000"

text \<open>
  A raw candle \<open>{ i, v }\<close> and a processed one. The six fields of a processed candle
  are read from \<open>v\<close> by position, so a field is \<open>undefined\<close> (\<open>None\<close>) when \<open>v\<close> is
  too short. The numbers themselves are never computed with; their type is a parameter.
\<close>

datatype 'n RawCandle = RawCandle (rc_i: int) (rc_v: "'n list")

datatype 'n Candle = Candle
  (timestamp: "'n option") (c_open: "'n option") (high: "'n option")
  (low: "'n option") (c_close: "'n option") (volume: "'n option")

definition processCandle :: "'n RawCandle \<Rightarrow> 'n Candle" where
  "processCandle rawCandle =
     Candle (js_index (rc_v rawCandle) 0) (js_index (rc_v rawCandle) 1)
            (js_index (rc_v rawCandle) 2) (js_index (rc_v rawCandle) 3)
            (js_index (rc_v rawCandle) 4) (js_index (rc_v rawCandle) 5)"

definition processCandles :: "'n RawCandle list \<Rightarrow> 'n Candle list" where
  "processCandles rawCandles = map processCandle rawCandles"

text \<open>
  An amount that passed validation is \<open>undefined\<close> (\<open>None\<close>) or an integer. In a
  condition, \<open>amount\<close> is truthy when it is a number other than zero.
\<close>

fun truthy :: "int option \<Rightarrow> bool" where
  "truthy None = False"
| "truthy (Some n) = (n \<noteq> 0)"

definition calculateBatchSize :: "int option \<Rightarrow> int" where
  "calculateBatchSize amount =
     (case amount of
        None \<Rightarrow> MAX_BATCH_SIZE
      | Some n \<Rightarrow> if n \<noteq> 0 \<and> n < MAX_BATCH_SIZE then n else MAX_BATCH_SIZE)"

definition filterNewCandles ::
  "'n RawCandle list \<Rightarrow> 'n RawCandle list \<Rightarrow> int \<Rightarrow> 'n RawCandle list" where
  "filterNewCandles newCandles existingCandles batch =
     (if int (length newCandles) \<le> batch then newCandles
      else js_slice newCandles 0 (- int (length existingCandles)))"

definition shouldRequestMoreData :: "int \<Rightarrow> int option \<Rightarrow> bool" where
  "shouldRequestMoreData loadedCount amount =
     (loadedCount > 0 \<and>
      js_rem loadedCount MAX_BATCH_SIZE = Some 0 \<and>
      (\<not> truthy amount \<or> loadedCount < the amount))"



subsection \<open>Events and commands\<close>

text \<open>
  An inbound event \<open>{ name, params }\<close>. Of \<open>params\<close> the handlers read the session id
  \<open>params[0]\<close> and the session data \<open>params[1]\<close>, an object whose keys name series
  objects; a series object may carry its bars in the field \<open>s\<close>. The session data is
  \<open>None\<close> when \<open>params[1]\<close> is missing, and a key maps to \<open>None\<close> when its series
  object has no \<open>s\<close>. A session id that is no key of the session map (a missing
  \<open>params[0]\<close> included) is any string outside the map's domain.
\<close>

type_synonym 'n SessionData = "(string \<times> 'n RawCandle list option) list"

datatype 'n TradingviewEvent = TradingviewEvent
  (ev_name: string) (ev_sessionId: string) (ev_sessionData: "'n SessionData option")

text \<open>An outbound command, as handed to \<open>connection.send(name, params)\<close>.\<close>

datatype param = PString string | PNumber int

datatype command = Command string "param list"

subsection \<open>\<open>SymbolStateManager\<close> and \<open>ChartSessionManager\<close>\<close>

record 'n SymbolState =
  candles :: "'n RawCandle list"
  completed :: bool
  error :: bool

text \<open>
  The two managers of one retrieval and the commands written to its connection so far:
  \<open>states\<close> is the symbol-to-state table, \<open>sessionMap\<close> the session-to-symbol table.
\<close>

record 'n Managers =
  states :: "string \<rightharpoonup> 'n SymbolState"
  sessionMap :: "string \<rightharpoonup> string"
  sent :: "command list"

definition send :: "string \<Rightarrow> param list \<Rightarrow> 'n Managers \<Rightarrow> 'n Managers" where
  "send nm ps w = w\<lparr>sent := sent w @ [Command nm ps]\<rparr>"


definition updateSymbolCandles ::
  "string \<Rightarrow> 'n RawCandle list \<Rightarrow> 'n Managers \<Rightarrow> 'n Managers" where
  "updateSymbolCandles symbol newCandles w =
     (case states w symbol of
        Some st \<Rightarrow>
          if \<not> completed st
          then w\<lparr>states := (states w)(symbol \<mapsto> st\<lparr>candles := newCandles @ candles st\<rparr>)\<rparr>
          else w
      | None \<Rightarrow> w)"

definition markSymbolCompleted :: "string \<Rightarrow> bool \<Rightarrow> 'n Managers \<Rightarrow> 'n Managers" where
  "markSymbolCompleted symbol hasError w =
     (case states w symbol of
        Some st \<Rightarrow> w\<lparr>states := (states w)(symbol \<mapsto> st\<lparr>completed := True, error := hasError\<rparr>)\<rparr>
      | None \<Rightarrow> w)"

definition getProcessedCandles :: "'n Managers \<Rightarrow> string \<Rightarrow> int option \<Rightarrow> 'n Candle list" where
  "getProcessedCandles w symbol amount =
     (case states w symbol of
        None \<Rightarrow> []
      | Some st \<Rightarrow>
          processCandles
            (if truthy amount then js_slice (candles st) 0 (the amount) else candles st))"


text \<open>
  \<open>Math.random().toString(36).substring(2, 14)\<close> is an input of the model: the random
  text of each call is given.
\<close>

definition generateChartSession :: "string option \<Rightarrow> string \<Rightarrow> string" where
  "generateChartSession symbol randomId =
     (case symbol of
        None \<Rightarrow> ''cs_'' @ randomId
      | Some name \<Rightarrow> if name \<noteq> [] then ''cs_'' @ name @ ''_'' @ randomId else ''cs_'' @ randomId)"

definition generateSymbolSession :: "nat \<Rightarrow> string" where
  "generateSymbolSession index = ''sds_sym_'' @ decimal index"

definition createChartSession :: "string \<Rightarrow> string \<Rightarrow> 'n Managers \<Rightarrow> 'n Managers" where
  "createChartSession symbol randomId w =
     (let chartSession = generateChartSession (Some symbol) randomId
      in send ''chart_create_session'' [PString chartSession, PString []]
           (w\<lparr>sessionMap := (sessionMap w)(chartSession \<mapsto> symbol)\<rparr>))"

definition resolveSymbol :: "string \<Rightarrow> string \<Rightarrow> string \<Rightarrow> 'n Managers \<Rightarrow> 'n Managers" where
  "resolveSymbol chartSession symbol symbolSession w =
     send ''resolve_symbol''
       [PString chartSession, PString symbolSession,
        PString (''='' @ stringify (JObj [(''symbol'', JStr symbol), (''adjustment'', JStr ''splits'')]))]
       w"

definition createSeries ::
  "string \<Rightarrow> string \<Rightarrow> string \<Rightarrow> string \<Rightarrow> int \<Rightarrow> 'n Managers \<Rightarrow> 'n Managers" where
  "createSeries chartSession seriesId symbolSession tf batch w =
     send ''create_series''
       [PString chartSession, PString ''sds_1'', PString seriesId, PString symbolSession,
        PString tf, PNumber batch, PString []]
       w"

definition requestMoreData :: "string \<Rightarrow> int \<Rightarrow> 'n Managers \<Rightarrow> 'n Managers" where
  "requestMoreData chartSession batch w =
     send ''request_more_data'' [PString chartSession, PString ''sds_1'', PNumber batch] w"


text \<open>
  The first key that starts with \<open>sds_\<close> and whose series object has an \<open>s\<close>
  (an array, even an empty one, is truthy).
\<close>

definition findSeriesKey :: "'n SessionData \<Rightarrow> string option" where
  "findSeriesKey sessionData =
     find (\<lambda>key. startsWith key ''sds_'' \<and>
                 (case map_of sessionData key of Some (Some _) \<Rightarrow> True | _ \<Rightarrow> False))
          (map fst sessionData)"

subsection \<open>\<open>CandleEventHandler\<close>\<close>

record CandleEventHandler =
  batchSize :: int
  requestedAmount :: "int option"

text \<open>
  \<open>handleTimescaleUpdate\<close> returns early for an unknown session, a missing state and a
  completed state. Past these guards it reads the keys of the session data, which throws
  a TypeError when the event carries none.
\<close>

definition handleTimescaleUpdate ::
  "CandleEventHandler \<Rightarrow> 'n TradingviewEvent \<Rightarrow> 'n Managers \<Rightarrow> js_error + 'n Managers" where
  "handleTimescaleUpdate h event w =
     (case sessionMap w (ev_sessionId event) of
        None \<Rightarrow> Inr w
      | Some symbol \<Rightarrow>
          if symbol = [] then Inr w
          else
            (case states w symbol of
               None \<Rightarrow> Inr w
             | Some st \<Rightarrow>
                 if completed st then Inr w
                 else
                   (case ev_sessionData event of
                      None \<Rightarrow> Inl (TypeError ''Cannot convert undefined or null to object'')
                    | Some sessionData \<Rightarrow>
                        (case findSeriesKey sessionData of
                           None \<Rightarrow> Inr w
                         | Some seriesKey \<Rightarrow>
                             (case map_of sessionData seriesKey of
                                Some (Some newCandles) \<Rightarrow>
                                  Inr (updateSymbolCandles symbol
                                         (filterNewCandles newCandles (candles st) (batchSize h)) w)
                              | _ \<Rightarrow> Inr w)))))"

text \<open>
  \<open>handleSeriesEvent\<close> returns whether the symbol completed, the arguments it hands to
  the \<open>onSymbolCompleted\<close> callback when it calls it, and the managers afterwards.
\<close>

definition handleSeriesEvent ::
  "CandleEventHandler \<Rightarrow> 'n TradingviewEvent \<Rightarrow> 'n Managers
     \<Rightarrow> bool \<times> (string \<times> 'n Candle list) option \<times> 'n Managers" where
  "handleSeriesEvent h event w =
     (case sessionMap w (ev_sessionId event) of
        None \<Rightarrow> (False, None, w)
      | Some symbol \<Rightarrow>
          if symbol = [] then (False, None, w)
          else
            (case states w symbol of
               None \<Rightarrow> (False, None, w)
             | Some st \<Rightarrow>
                 if completed st then (False, None, w)
                 else if shouldRequestMoreData (int (length (candles st))) (requestedAmount h)
                 then (False, None, requestMoreData (ev_sessionId event) (batchSize h) w)
                 else
                   (let hasError = (ev_name event = ''symbol_error'');
                        w' = markSymbolCompleted symbol hasError w
                    in (True, Some (symbol, getProcessedCandles w' symbol (requestedAmount h)), w'))))"


section \<open>Promises\<close>




section \<open>Sequential retrieval (\<open>getCandles\<close>, \<open>index.ts\<close>)\<close>








section \<open>Concurrent retrieval (\<open>getCandlesConcurrent\<close>, \<open>index.ts\<close>)\<close>

text \<open>
  The requests one symbol gets in the concurrent and the streaming retrieval. The chart
  session id is generated twice, once by the caller and once inside
  \<open>createChartSession\<close>: \<open>r1\<close> and \<open>r2\<close> are the random texts of the two calls.
\<close>

definition requestSymbol ::
  "string \<Rightarrow> int \<Rightarrow> string \<Rightarrow> nat \<Rightarrow> string \<Rightarrow> string \<Rightarrow> 'n Managers \<Rightarrow> 'n Managers" where
  "requestSymbol tf batch symbol index r1 r2 w =
     (let chartSession = generateChartSession (Some symbol) r1;
          symbolSession = generateSymbolSession index
      in createSeries chartSession (''s'' @ decimal index) symbolSession tf batch
           (resolveSymbol chartSession symbol symbolSession
              (createChartSession symbol r2 w)))"

fun requestSymbols ::
  "string \<Rightarrow> int \<Rightarrow> (nat \<Rightarrow> string) \<Rightarrow> nat \<Rightarrow> string list \<Rightarrow> 'n Managers \<Rightarrow> 'n Managers" where
  "requestSymbols tf batch rnd index [] w = w"
| "requestSymbols tf batch rnd index (symbol # rest) w =
     requestSymbols tf batch rnd (Suc index) rest
       (requestSymbol tf batch symbol index (rnd (2 * index)) (rnd (2 * index + 1)) w)"








section \<open>Streaming retrieval (\<open>CandleStream\<close>, \<open>data/stream.ts\<close>)\<close>

record 'n CandleStream =
  st_managers :: "'n Managers"
  pendingYields :: "(string \<times> 'n Candle list) list"
  activeCount :: int
  hasError :: bool
  errorMessage :: "string option"
  st_subscribed :: bool















section \<open>Connecting with endpoint fallback (\<open>connection/websocket.ts\<close>)\<close>

definition ENDPOINTS :: "(string \<times> string) list" where
  "ENDPOINTS =
     [(''data'', ''wss://data.tradingview.com/socket.io/websocket''),
      (''prodata'', ''wss://prodata.tradingview.com/socket.io/websocket''),
      (''charts-polygon'', ''wss://charts-polygon.tradingview.com/socket.io/websocket''),
      (''widgetdata'', ''wss://widgetdata.tradingview.com/socket.io/websocket'')]"

text \<open>
  One attempt, \<open>connectToEndpoint\<close>, is the network's doing: it hands over a connection,
  fails with an error, or never settles.
\<close>

datatype 'c attempt = Connected 'c | Failed js_error | Hangs

definition endpointsToTry :: "string option \<Rightarrow> (string \<times> string) list" where
  "endpointsToTry endpoint =
     (let chosen =
        (case endpoint of
           None \<Rightarrow> (''data'', the (map_of ENDPOINTS ''data''))
         | Some ep \<Rightarrow>
             if ep \<noteq> [] \<and> ep \<in> set (map fst ENDPOINTS) then (ep, the (map_of ENDPOINTS ep))
             else if ep \<noteq> [] \<and> startsWith ep ''wss://'' then (''custom'', ep)
             else (''data'', the (map_of ENDPOINTS ''data'')))
      in chosen # filter (\<lambda>entry. fst entry \<noteq> fst chosen) ENDPOINTS)"

text \<open>
  The loop over the candidates, with \<open>lastError\<close>. The result is \<open>None\<close> when an attempt
  never settles: the call then waits forever.
\<close>

fun connectLoop ::
  "(string \<Rightarrow> string \<Rightarrow> 'c attempt) \<Rightarrow> js_error option \<Rightarrow> (string \<times> string) list
     \<Rightarrow> (js_error + 'c) option" where
  "connectLoop net lastError [] =
     Some (Inl (case lastError of
                  Some e \<Rightarrow> e
                | None \<Rightarrow> Error ''Failed to connect to any TradingView endpoint''))"
| "connectLoop net lastError (endpoint # rest) =
     (case net (fst endpoint) (snd endpoint) of
        Connected connection \<Rightarrow> Some (Inr connection)
      | Failed e \<Rightarrow> connectLoop net (Some e) rest
      | Hangs \<Rightarrow> None)"

definition connect ::
  "string option \<Rightarrow> (string \<Rightarrow> string \<Rightarrow> 'c attempt) \<Rightarrow> (js_error + 'c) option" where
  "connect endpoint net = connectLoop net None (endpointsToTry endpoint)"

section \<open>Frame codec (\<open>connection/protocol.ts\<close>)\<close>

datatype MessagePayload = PingPayload string | SessionPayload json | EventPayload json

text \<open>
  A match of \<open>/~m~\d+~m~/\<close> at the start of the text: the text after the match.
\<close>

definition match_delim :: "string \<Rightarrow> string option" where
  "match_delim str =
     (if startsWith str ''~m~'' then
        (let after = drop 3 str;
             digits = takeWhile is_digit after;
             rest = dropWhile is_digit after
         in if digits \<noteq> [] \<and> startsWith rest ''~m~'' then Some (drop 3 rest) else None)
      else None)"

text \<open>
  \<open>str.split(/~m~\d+~m~/)\<close>: the pieces between the matches, found from left to right.
  A match is never empty, so the text after it is shorter.
\<close>

lemma match_delim_shorter: "match_delim str = Some rest \<Longrightarrow> length rest < length str"
proof -
  assume m: "match_delim str = Some rest"
  then have r: "rest = drop 3 (dropWhile is_digit (drop 3 str))" and s: "startsWith str ''~m~''"
    by (auto simp: match_delim_def Let_def split: if_splits)
  from s have "3 \<le> length str" by (cases "length str < 3") (auto simp: startsWith_def)
  moreover have "length (dropWhile is_digit (drop 3 str)) \<le> length (drop 3 str)"
    by (rule length_dropWhile_le)
  ultimately show ?thesis using r by simp
qed

function split_delim :: "string \<Rightarrow> string list" where
  "split_delim [] = [[]]"
| "split_delim (c # cs) =
     (case match_delim (c # cs) of
        Some rest \<Rightarrow> [] # split_delim rest
      | None \<Rightarrow>
          (case split_delim cs of
             [] \<Rightarrow> [[c]]
           | piece # pieces \<Rightarrow> (c # piece) # pieces))"
  by pat_completeness auto
termination
  by (relation "measure length") (auto dest: match_delim_shorter)

text \<open>One sub-message, as the \<open>map\<close> callback of \<open>parseMessage\<close> classifies it.\<close>

definition classify :: "string \<Rightarrow> js_error + MessagePayload" where
  "classify event =
     (if take 3 event = ''~h~''
      then Inr (PingPayload (''~m~'' @ decimal (length event) @ ''~m~'' @ event))
      else
        (case parse event of
           None \<Rightarrow> Inl (SyntaxError ''Unexpected token in JSON'')
         | Some parsed \<Rightarrow>
             if parsed = JNull
             then Inl (TypeError ''Cannot read properties of null'')
             else
               (case get_prop parsed ''session_id'' of
                  Some sid \<Rightarrow>
                    if json_truthy sid then Inr (SessionPayload parsed) else Inr (EventPayload parsed)
                | None \<Rightarrow> Inr (EventPayload parsed))))"

text \<open>\<open>events.map(...)\<close>: the first sub-message that throws ends the call.\<close>

fun classify_all :: "string list \<Rightarrow> js_error + MessagePayload list" where
  "classify_all [] = Inr []"
| "classify_all (event # events) =
     (case classify event of
        Inl e \<Rightarrow> Inl e
      | Inr payload \<Rightarrow>
          (case classify_all events of
             Inl e \<Rightarrow> Inl e
           | Inr payloads \<Rightarrow> Inr (payload # payloads)))"

definition parseMessage :: "string \<Rightarrow> js_error + MessagePayload list" where
  "parseMessage msg =
     (if length msg = 0 then Inr [] else classify_all (drop 1 (split_delim msg)))"

definition createMessage :: "string \<Rightarrow> json list \<Rightarrow> string" where
  "createMessage name params =
     (let data = stringify (JObj [(''m'', JStr name), (''p'', JArr params)])
      in ''~m~'' @ decimal (length data) @ ''~m~'' @ data)"

text \<open>\<open>createTradingEvent\<close>: the event's name and parameters, read off the payload's data.\<close>

definition createTradingEvent :: "MessagePayload \<Rightarrow> js_error + (json option \<times> json option)" where
  "createTradingEvent payload =
     (case payload of
        EventPayload data \<Rightarrow> Inr (get_prop data ''m'', get_prop data ''p'')
      | _ \<Rightarrow> Inl (Error ''Cannot create trading event from non-event payload''))"

section \<open>Notions used in the statements and proofs\<close>

subsection \<open>The pagination rule in the specification's words\<close>

text \<open>
  The specification's batch size: the smaller of the requested amount and the maximum when
  an amount is given, else the maximum. Its pagination condition: the accumulated count is
  positive, a multiple of that batch size, and below the requested amount (or no amount
  was requested).
\<close>

definition spec_batch_size :: "int option \<Rightarrow> int" where
  "spec_batch_size amount =
     (case amount of None \<Rightarrow> MAX_BATCH_SIZE | Some n \<Rightarrow> min n MAX_BATCH_SIZE)"

definition spec_paginate :: "nat \<Rightarrow> int option \<Rightarrow> bool" where
  "spec_paginate loaded amount =
     (0 < loaded \<and> js_rem (int loaded) (spec_batch_size amount) = Some 0 \<and>
      (amount = None \<or> int loaded < the amount))"

subsection \<open>The concurrent retrieval\<close>





subsection \<open>Texts\<close>

text \<open>A text that can follow a number: it does not go on with a digit.\<close>

definition ends_number :: "string \<Rightarrow> bool" where
  "ends_number rest = (case rest of [] \<Rightarrow> True | c # _ \<Rightarrow> \<not> is_digit c)"

text \<open>A text in which the delimiter pattern matches nowhere.\<close>

fun delim_free :: "string \<Rightarrow> bool" where
  "delim_free [] = True"
| "delim_free (c # cs) = (match_delim (c # cs) = None \<and> delim_free cs)"

subsection \<open>Sample inputs\<close>

text \<open>
  One symbol, \<open>FX:EURUSD\<close>, registered under one session and holding the given bars,
  not yet completed.
\<close>

definition w_live :: "rat RawCandle list \<Rightarrow> rat Managers" where
  "w_live cs =
     \<lparr>states = [''FX:EURUSD'' \<mapsto> \<lparr>candles = cs, completed = False, error = False\<rparr>],
      sessionMap = [''cs_FX:EURUSD_k3x'' \<mapsto> ''FX:EURUSD''], sent = []\<rparr>"








section \<open>Amount validation\<close>

lemma isInteger_iff: "isInteger n \<longleftrightarrow> (\<exists>k::int. n = Finite (of_int k))"
  by (cases n) (auto intro: exI[of _ "\<lfloor>_\<rfloor>"] simp: eq_commute)

lemma validateAmount_iff:
  "(validateAmount a = Inr ()) \<longleftrightarrow>
     (a = JSUndefined \<or> (\<exists>n::int. 1 \<le> n \<and> n \<le> 10000 \<and> a = JSNumber (Finite (of_int n))))"
proof (cases a)
  case (JSNumber x)
  show ?thesis
  proof (cases "isInteger x")
    case True
    then obtain k :: int where k: "x = Finite (of_int k)" by (auto simp: isInteger_iff)
    have "(0::rat) < of_int k \<longleftrightarrow> 1 \<le> k" by (simp add: int_one_le_iff_zero_less)
    moreover have "of_int k \<le> (10000::rat) \<longleftrightarrow> k \<le> 10000" by (metis of_int_le_iff of_int_numeral)
    ultimately show ?thesis using JSNumber k by (auto simp: validateAmount_def not_le not_less)
  next
    case False
    then show ?thesis using JSNumber by (auto simp: validateAmount_def isInteger_iff)
  qed
qed (auto simp: validateAmount_def)

lemma validateAmount_throws:
  "validateAmount a \<noteq> Inr () \<Longrightarrow> \<exists>m. validateAmount a = Inl (Error m)"
  by (auto simp: validateAmount_def split: js_value.splits if_splits)

text \<open>
  Claim C9. \<open>validateAmount\<close> returns normally exactly when its argument is
  \<open>undefined\<close> or an integer from 1 to 10000, and throws an \<open>Error\<close> otherwise. An
  amount above the batch cap of 5000 and at most 10000 is accepted; its batch size is
  5000, and after a first full batch of 5000 bars the retrieval asks for more data.
\<close>

theorem C9_validateAmount:
  "((validateAmount a = Inr ()) \<longleftrightarrow>
      (a = JSUndefined \<or> (\<exists>n::int. 1 \<le> n \<and> n \<le> 10000 \<and> a = JSNumber (Finite (of_int n)))))
   \<and> (validateAmount a = Inr () \<or> (\<exists>m. validateAmount a = Inl (Error m)))
   \<and> (\<forall>n::int. 5000 < n \<and> n \<le> 10000 \<longrightarrow>
          validateAmount (JSNumber (Finite (of_int n))) = Inr ()
        \<and> calculateBatchSize (Some n) = 5000
        \<and> shouldRequestMoreData 5000 (Some n))"
proof (intro conjI allI impI)
  show "(validateAmount a = Inr ()) \<longleftrightarrow>
      (a = JSUndefined \<or> (\<exists>n::int. 1 \<le> n \<and> n \<le> 10000 \<and> a = JSNumber (Finite (of_int n))))"
    by (rule validateAmount_iff)
  show "validateAmount a = Inr () \<or> (\<exists>m. validateAmount a = Inl (Error m))"
    using validateAmount_throws by blast
next
  fix n :: int assume n: "5000 < n \<and> n \<le> 10000"
  then have "1 \<le> n \<and> n \<le> 10000" by simp
  then show "validateAmount (JSNumber (Finite (of_int n))) = Inr ()"
    unfolding validateAmount_iff by blast
  show "calculateBatchSize (Some n) = 5000"
    using n by (simp add: calculateBatchSize_def MAX_BATCH_SIZE_def)
  show "shouldRequestMoreData 5000 (Some n)"
    using n by (simp add: shouldRequestMoreData_def js_rem_def MAX_BATCH_SIZE_def)
qed

theorem C9_validateAmount_witness:
  "validateAmount (JSNumber (Finite 7500)) = Inr ()
   \<and> validateAmount (JSNumber (Finite 10001)) = Inl (Error ''Amount cannot exceed 10000 candles per request'')
   \<and> validateAmount (JSNumber (Finite 0)) = Inl (Error ''Amount must be greater than 0'')
   \<and> validateAmount (JSNumber (Finite (1/2))) = Inl (Error ''Amount must be an integer'')
   \<and> validateAmount (JSString ''10'') = Inl (Error ''Amount must be a number'')
   \<and> calculateBatchSize (Some 7500) = 5000 \<and> shouldRequestMoreData 5000 (Some 7500)"
proof -
  have "(5000::int) < 7500 \<and> (7500::int) \<le> 10000" by simp
  with C9_validateAmount[of JSUndefined]
  have "validateAmount (JSNumber (Finite (of_int 7500))) = Inr ()
        \<and> calculateBatchSize (Some 7500) = 5000 \<and> shouldRequestMoreData 5000 (Some 7500)"
    by blast
  moreover have "validateAmount (JSNumber (Finite 10001)) = Inl (Error ''Amount cannot exceed 10000 candles per request'')"
    by (simp add: validateAmount_def)
  moreover have "validateAmount (JSNumber (Finite 0)) = Inl (Error ''Amount must be greater than 0'')"
    by (simp add: validateAmount_def)
  moreover have "\<lfloor>1/2::rat\<rfloor> = 0" by (simp add: floor_eq_iff)
  then have "validateAmount (JSNumber (Finite (1/2))) = Inl (Error ''Amount must be an integer'')"
    by (simp add: validateAmount_def)
  moreover have "validateAmount (JSString ''10'') = Inl (Error ''Amount must be a number'')"
    by (simp add: validateAmount_def)
  ultimately show ?thesis by simp
qed

section \<open>The pagination decision\<close>

text \<open>
  The handler tests divisibility by the fixed maximum, the specification by the batch
  size. For every amount other than zero the two conditions agree: below the maximum the
  batch size is the amount itself, and no positive count below the amount is a multiple
  of it or of the maximum.
\<close>

lemma paginate_equiv:
  assumes "amount \<noteq> Some 0" "0 \<le> L"
  shows "shouldRequestMoreData L amount \<longleftrightarrow>
     (L > 0 \<and> js_rem L (calculateBatchSize amount) = Some 0 \<and> (amount = None \<or> L < the amount))"
  using assms
  by (cases amount)
     (auto simp: shouldRequestMoreData_def calculateBatchSize_def js_rem_def MAX_BATCH_SIZE_def
           split: if_splits dest: zdvd_imp_le)

lemma spec_paginate_iff:
  assumes "amount \<noteq> Some 0"
  shows "shouldRequestMoreData (int L) amount \<longleftrightarrow> spec_paginate L amount"
proof (cases amount)
  case None
  then show ?thesis
    by (simp add: shouldRequestMoreData_def spec_paginate_def spec_batch_size_def)
next
  case (Some a)
  with assms have a: "a \<noteq> 0" by simp
  show ?thesis
  proof (cases "a < 5000")
    case True
    have "\<not> (0 < int L \<and> int L < a \<and> a dvd int L)"
      using zdvd_imp_le[of a "int L"] by auto
    moreover have "\<not> (0 < int L \<and> int L < a \<and> 5000 dvd int L)"
      using True zdvd_imp_le[of 5000 "int L"] by auto
    ultimately show ?thesis using Some a True
      by (auto simp: shouldRequestMoreData_def spec_paginate_def spec_batch_size_def js_rem_def
                     MAX_BATCH_SIZE_def min_def)
  next
    case False
    then show ?thesis using Some a
      by (auto simp: shouldRequestMoreData_def spec_paginate_def spec_batch_size_def js_rem_def
                     MAX_BATCH_SIZE_def min_def)
  qed
qed

text \<open>
  Claim C2. A completion or symbol-error event arrives for the session of a symbol whose
  state is not yet completed, and the requested amount is not zero (validation admits
  only \<open>undefined\<close> and 1..10000). When the accumulated count is positive, a multiple of
  the batch size (the smaller of the requested amount and 5000) and below the requested
  amount, or no amount was requested, the handler sends \<open>request_more_data\<close> for that
  session with its batch size, reports the symbol as not completed and leaves every state
  as it was. In every other case it sends nothing, reports the symbol as completed and
  marks its state completed, with the error flag set exactly for \<open>symbol_error\<close>.
\<close>

theorem C2_series_event:
  assumes known: "sessionMap w (ev_sessionId event) = Some symbol" "symbol \<noteq> []"
      and live: "states w symbol = Some st" "\<not> completed st"
      and amount: "requestedAmount h \<noteq> Some 0"
  shows "(spec_paginate (length (candles st)) (requestedAmount h) \<longrightarrow>
            handleSeriesEvent h event w =
              (False, None,
               w\<lparr>sent := sent w @ [Command ''request_more_data''
                  [PString (ev_sessionId event), PString ''sds_1'', PNumber (batchSize h)]]\<rparr>))
       \<and> (\<not> spec_paginate (length (candles st)) (requestedAmount h) \<longrightarrow>
            (case handleSeriesEvent h event w of (finished, cb, w') \<Rightarrow>
               finished \<and> sent w' = sent w \<and>
               states w' symbol = Some (st\<lparr>completed := True, error := (ev_name event = ''symbol_error'')\<rparr>)))"
  using known live spec_paginate_iff[OF amount, of "length (candles st)"]
  by (auto simp: handleSeriesEvent_def requestMoreData_def send_def markSymbolCompleted_def Let_def)

theorem C2_series_event_witness:
  "handleSeriesEvent \<lparr>batchSize = 5000, requestedAmount = None\<rparr>
      (TradingviewEvent ''series_completed'' ''cs_FX:EURUSD_k3x'' None)
      (w_live (replicate 5000 (RawCandle 0 [])))
    = (False, None,
       (w_live (replicate 5000 (RawCandle 0 [])))
         \<lparr>sent := [Command ''request_more_data''
                     [PString ''cs_FX:EURUSD_k3x'', PString ''sds_1'', PNumber 5000]]\<rparr>)
   \<and> fst (handleSeriesEvent \<lparr>batchSize = 3, requestedAmount = Some 3\<rparr>
      (TradingviewEvent ''series_completed'' ''cs_FX:EURUSD_k3x'' None)
      (w_live (replicate 3 (RawCandle 0 []))))"
proof -
  let ?h = "\<lparr>batchSize = 5000, requestedAmount = None\<rparr>"
  let ?e = "TradingviewEvent ''series_completed'' ''cs_FX:EURUSD_k3x'' None :: rat TradingviewEvent"
  let ?w = "w_live (replicate 5000 (RawCandle 0 []))"
  let ?st = "\<lparr>candles = replicate 5000 (RawCandle 0 []), completed = False, error = False\<rparr> :: rat SymbolState"
  have p: "spec_paginate (length (candles ?st)) (requestedAmount ?h)"
    by (simp add: spec_paginate_def spec_batch_size_def js_rem_def MAX_BATCH_SIZE_def)
  have "handleSeriesEvent ?h ?e ?w =
          (False, None, ?w\<lparr>sent := sent ?w @ [Command ''request_more_data''
             [PString (ev_sessionId ?e), PString ''sds_1'', PNumber (batchSize ?h)]]\<rparr>)"
    using C2_series_event[of ?w ?e "''FX:EURUSD''" ?st ?h] p
    by (simp add: w_live_def)
  then have one: "handleSeriesEvent ?h ?e ?w =
          (False, None, ?w\<lparr>sent := [Command ''request_more_data''
             [PString ''cs_FX:EURUSD_k3x'', PString ''sds_1'', PNumber 5000]]\<rparr>)"
    by (simp add: w_live_def)
  let ?h3 = "\<lparr>batchSize = 3, requestedAmount = Some 3\<rparr>"
  let ?w3 = "w_live (replicate 3 (RawCandle 0 []))"
  let ?st3 = "\<lparr>candles = replicate 3 (RawCandle 0 []), completed = False, error = False\<rparr> :: rat SymbolState"
  have np: "\<not> spec_paginate (length (candles ?st3)) (requestedAmount ?h3)"
    by (simp add: spec_paginate_def)
  have two: "fst (handleSeriesEvent ?h3 ?e ?w3)"
    using C2_series_event[of ?w3 ?e "''FX:EURUSD''" ?st3 ?h3] np
    by (auto simp: w_live_def split: prod.splits)
  from one two show ?thesis by simp
qed

section \<open>Accumulating a data update\<close>

lemma filterNewCandles_whole:
  "int (length newCandles) \<le> batch \<Longrightarrow> filterNewCandles newCandles existing batch = newCandles"
  by (simp add: filterNewCandles_def)

lemma filterNewCandles_oversized:
  "batch < int (length newCandles) \<Longrightarrow> existing \<noteq> [] \<Longrightarrow>
   filterNewCandles newCandles existing batch = take (length newCandles - length existing) newCandles"
  by (auto simp: filterNewCandles_def js_slice_def Let_def max_def nat_diff_distrib')

lemma filterNewCandles_resend:
  "batch < int (length (fresh @ existing)) \<Longrightarrow> existing \<noteq> [] \<Longrightarrow>
   filterNewCandles (fresh @ existing) existing batch @ existing = fresh @ existing"
  by (simp add: filterNewCandles_oversized)

text \<open>
  Claim C3, at an accumulator that holds no bars. With a batch size of 1 and nothing
  accumulated, a payload of two bars is over the batch size; \<open>slice(0, -0)\<close> is
  \<open>slice(0, 0)\<close>, so the filter keeps no bar instead of dropping none, and the update
  leaves the accumulator empty.
\<close>

theorem C3_oversized_payload_on_empty_accumulator:
  "filterNewCandles [RawCandle 2 [20], RawCandle 1 [10]] [] 1 = ([] :: rat RawCandle list)
   \<and> handleTimescaleUpdate \<lparr>batchSize = 1, requestedAmount = Some 1\<rparr>
        (TradingviewEvent ''timescale_update'' ''cs_FX:EURUSD_k3x''
           (Some [(''sds_1'', Some [RawCandle 2 [20], RawCandle 1 [10]])]))
        (w_live []) = Inr (w_live [])"
  by (simp add: filterNewCandles_def js_slice_def handleTimescaleUpdate_def w_live_def
                findSeriesKey_def startsWith_def updateSymbolCandles_def)

section \<open>Events of unknown sessions\<close>

text \<open>
  Claim C10. For an event whose session id has no entry in the session-to-symbol map,
  \<open>handleTimescaleUpdate\<close> returns with the managers unchanged (no symbol state
  mutated, no command sent), and \<open>handleSeriesEvent\<close> returns \<open>false\<close> with the
  managers unchanged and without calling the completion callback.
\<close>

theorem C10_unknown_session:
  assumes "sessionMap w (ev_sessionId event) = None"
  shows "handleTimescaleUpdate h event w = Inr w \<and> handleSeriesEvent h event w = (False, None, w)"
  using assms by (simp add: handleTimescaleUpdate_def handleSeriesEvent_def)

theorem C10_unknown_session_witness:
  "handleTimescaleUpdate \<lparr>batchSize = 5000, requestedAmount = None\<rparr>
      (TradingviewEvent ''timescale_update'' ''cs_other'' (Some [(''sds_1'', Some [RawCandle 0 [1]])]))
      (w_live []) = Inr (w_live [])
   \<and> handleSeriesEvent \<lparr>batchSize = 5000, requestedAmount = None\<rparr>
      (TradingviewEvent ''symbol_error'' ''cs_other'' None) (w_live []) = (False, None, w_live [])"
proof -
  have a: "sessionMap (w_live []) ''cs_other'' = None" by (simp add: w_live_def)
  show ?thesis
    using C10_unknown_session[of "w_live []" "TradingviewEvent ''timescale_update'' ''cs_other'' (Some [(''sds_1'', Some [RawCandle 0 [1]])])" "\<lparr>batchSize = 5000, requestedAmount = None\<rparr>"]
          C10_unknown_session[of "w_live []" "TradingviewEvent ''symbol_error'' ''cs_other'' None" "\<lparr>batchSize = 5000, requestedAmount = None\<rparr>"] a
    by simp
qed

section \<open>Result order of the concurrent retrieval\<close>















lemma states_requestSymbols [simp]:
  "states (requestSymbols tf batch rnd index syms w) = states w"
  by (induction syms arbitrary: index w)
     (simp_all add: requestSymbol_def createSeries_def resolveSymbol_def createChartSession_def
                    send_def Let_def)







subsection \<open>The call resolves\<close>












section \<open>A symbol error on an empty accumulator\<close>







section \<open>Failure in the streaming retrieval\<close>







section \<open>Endpoint fallback\<close>







section \<open>Reading back what \<open>stringify\<close> writes\<close>

declare decimal.simps [simp del]

lemma digit_char_props:
  "d < 10 \<Longrightarrow> is_digit (digit_char d) \<and> digit_value (digit_char d) = d"
  by (simp add: is_digit_def digit_char_def digit_value_def)

lemma digit_char_zero: "d < 10 \<Longrightarrow> digit_char d = CHR ''0'' \<longleftrightarrow> d = 0"
proof -
  assume d: "d < 10"
  have "digit_char d = CHR ''0'' \<longleftrightarrow> (of_char (digit_char d) :: nat) = of_char (CHR ''0'')"
    by (metis char_of_char)
  also have "\<dots> \<longleftrightarrow> d = 0" using d by (simp add: digit_char_def)
  finally show ?thesis .
qed

lemma decimal_digits: "list_all is_digit (decimal n) \<and> decimal n \<noteq> []"
proof (induction n rule: decimal.induct)
  case (1 n)
  show ?case
  proof (cases "n < 10")
    case True
    then show ?thesis by (simp add: decimal.simps[of n] digit_char_props)
  next
    case False
    then have "n mod 10 < 10" by simp
    with False 1 show ?thesis by (simp add: decimal.simps[of n] digit_char_props)
  qed
qed

lemma decimal_value: "foldl (\<lambda>k c. 10 * k + digit_value c) 0 (decimal n) = n"
proof (induction n rule: decimal.induct)
  case (1 n)
  show ?case
  proof (cases "n < 10")
    case True
    then show ?thesis by (simp add: decimal.simps[of n] digit_char_props)
  next
    case False
    have "n mod 10 < 10" by simp
    then have "digit_value (digit_char (n mod 10)) = n mod 10" by (simp add: digit_char_props)
    with False 1 show ?thesis by (simp add: decimal.simps[of n])
  qed
qed

lemma decimal_no_leading_zero: "0 < n \<Longrightarrow> hd (decimal n) \<noteq> CHR ''0''"
proof (induction n rule: decimal.induct)
  case (1 n)
  show ?case
  proof (cases "n < 10")
    case True
    with 1(2) show ?thesis by (simp add: decimal.simps[of n] digit_char_zero)
  next
    case False
    then have "0 < n div 10" by simp
    with 1(1) False have "hd (decimal (n div 10)) \<noteq> CHR ''0''" by simp
    moreover have "decimal (n div 10) \<noteq> []" using decimal_digits by blast
    ultimately show ?thesis using False by (simp add: decimal.simps[of n])
  qed
qed

lemma decimal_zero: "decimal 0 = ''0''"
  using digit_char_zero[of 0] by (simp add: decimal.simps[of 0])

lemma takeWhile_digits:
  "list_all is_digit ds \<Longrightarrow> ends_number rest \<Longrightarrow>
   takeWhile is_digit (ds @ rest) = ds \<and> dropWhile is_digit (ds @ rest) = rest"
  by (induction ds) (auto simp: ends_number_def split: list.splits)

lemma parse_digits_decimal:
  assumes "ends_number rest"
  shows "parse_digits (decimal n @ rest) = Some (n, rest)"
proof -
  from takeWhile_digits[OF _ assms, of "decimal n"] decimal_digits[of n]
  have t: "takeWhile is_digit (decimal n @ rest) = decimal n"
       "dropWhile is_digit (decimal n @ rest) = rest" by auto
  have "\<not> (length (decimal n) > 1 \<and> hd (decimal n) = CHR ''0'')"
  proof (cases "n = 0")
    case True
    then show ?thesis by (simp add: decimal_zero)
  next
    case False
    then show ?thesis using decimal_no_leading_zero[of n] by simp
  qed
  then show ?thesis using t decimal_digits[of n]
    by (simp add: parse_digits_def Let_def decimal_value)
qed

lemma hd_decimal_digit: "is_digit (hd (decimal n))"
  using decimal_digits[of n] by (cases "decimal n") auto

lemma parse_number_int:
  assumes "ends_number rest"
  shows "parse_number (int_toString i @ rest) = Some (JNum i, rest)"
proof (cases "i < 0")
  case True
  then show ?thesis
    using parse_digits_decimal[OF assms, of "nat (- i)"]
    by (simp add: parse_number_def int_toString_def)
next
  case False
  obtain c cs where d: "decimal (nat i) = c # cs"
    using decimal_digits[of "nat i"] by (cases "decimal (nat i)") auto
  with hd_decimal_digit[of "nat i"] have "is_digit c" by simp
  then have "c \<noteq> CHR ''-''" by (auto simp: is_digit_def)
  with False d show ?thesis
    using parse_digits_decimal[OF assms, of "nat i"]
    by (simp add: parse_number_def int_toString_def)
qed

lemma char_by_code: "(of_char c :: nat) = k \<Longrightarrow> c = char_of k"
  by (metis char_of_char)

lemma hex_value_hex_digit: "d < 16 \<Longrightarrow> hex_value (hex_digit d) = Some d"
  by (auto simp: hex_value_def hex_digit_def Let_def)

lemma parse_escape_char:
  assumes "parse_string_body (tail) = Some (str, rest)"
  shows "parse_string_body (escape_char c @ tail) = Some (c # str, rest)"
proof -
  let ?code = "of_char c :: nat"
  consider (dq) "c = dq" | (bs) "c = bs"
    | (short) "c \<noteq> dq" "c \<noteq> bs" "?code \<in> {8, 9, 10, 12, 13}"
    | (ctrl) "c \<noteq> dq" "c \<noteq> bs" "?code \<notin> {8, 9, 10, 12, 13}" "?code < 32"
    | (plain) "c \<noteq> dq" "c \<noteq> bs" "32 \<le> ?code"
    by fastforce
  then show ?thesis
  proof cases
    case dq
    then show ?thesis using assms by (simp add: escape_char_def unescape_def dq_def bs_def)
  next
    case bs
    then show ?thesis using assms by (simp add: escape_char_def unescape_def dq_def bs_def)
  next
    case short
    then have "?code = of_char (CHR 0x08) \<or> ?code = of_char (CHR 0x09) \<or> ?code = of_char (CHR 0x0A)
        \<or> ?code = of_char (CHR 0x0C) \<or> ?code = of_char (CHR 0x0D)"
      by auto
    then have "c = CHR 0x08 \<or> c = CHR 0x09 \<or> c = CHR 0x0A \<or> c = CHR 0x0C \<or> c = CHR 0x0D"
      unfolding of_char_eq_iff .
    then show ?thesis using assms
      by (auto simp: escape_char_def unescape_def dq_def bs_def)
  next
    case ctrl
    have lo: "?code mod 16 < 16" and hi: "?code div 16 < 16" using ctrl(4) by auto
    have "Some (char_of (16 * (?code div 16) + ?code mod 16)) = Some c"
      by (simp add: mult.commute)
    moreover have "hex_value (CHR ''0'') = Some 0" by (simp add: hex_value_def)
    ultimately have "unicode_escape (CHR ''0'') (CHR ''0'') (hex_digit (?code div 16)) (hex_digit (?code mod 16)) = Some c"
      using hex_value_hex_digit[OF lo] hex_value_hex_digit[OF hi]
      by (simp add: unicode_escape_def)
    then show ?thesis using assms ctrl
      by (simp add: escape_char_def Let_def bs_def dq_def)
  next
    case plain
    then have "escape_char c = [c]"
      by (auto simp: escape_char_def Let_def)
    then show ?thesis using assms plain by simp
  qed
qed

lemma parse_string_body_escaped:
  "parse_string_body (concat (map escape_char str) @ dq # rest) = Some (str, rest)"
  by (induction str) (simp_all add: parse_escape_char)

lemma int_toString_first:
  obtains c cs where "int_toString i = c # cs" "c = CHR ''-'' \<or> is_digit c"
proof (cases "i < 0")
  case True
  then show ?thesis using that by (simp add: int_toString_def)
next
  case False
  obtain c cs where d: "decimal (nat i) = c # cs"
    using decimal_digits[of "nat i"] by (cases "decimal (nat i)") auto
  with hd_decimal_digit[of "nat i"] have "is_digit c" by simp
  with False d show ?thesis using that by (simp add: int_toString_def)
qed

lemma number_first_char:
  assumes "c = CHR ''-'' \<or> is_digit c"
  shows "c \<noteq> CHR ''n''" "c \<noteq> CHR ''t''" "c \<noteq> CHR ''f''" "c \<noteq> dq" "c \<noteq> CHR ''[''"
        "c \<noteq> CHR ''{''" "c \<noteq> CHR '']''"
  using assms by (auto simp: is_digit_def dq_def)

lemma parse_value_number:
  assumes "ends_number rest"
  shows "parse_value (Suc f) (int_toString i @ rest) = Some (JNum i, rest)"
proof -
  obtain c cs where ic: "int_toString i = c # cs" "c = CHR ''-'' \<or> is_digit c"
    by (rule int_toString_first)
  note ne = number_first_char[OF ic(2)]
  have "parse_value (Suc f) (c # cs @ rest) = parse_number (c # cs @ rest)"
    using ne by (simp add: startsWith_def)
  then show ?thesis using parse_number_int[OF assms, of i] ic(1) by simp
qed

lemma stringify_first:
  obtains c cs where "stringify v = c # cs" "c \<noteq> CHR '']''"
proof (cases v)
  case (JNum i)
  obtain c cs where ic: "int_toString i = c # cs" "c = CHR ''-'' \<or> is_digit c"
    by (rule int_toString_first)
  with JNum number_first_char(7)[OF ic(2)] show ?thesis using that by simp
next
  case (JBool b)
  then show ?thesis using that by (cases b) auto
qed (use that in \<open>auto simp: quote_def dq_def\<close>)

lemma ends_number_simps [simp]:
  "ends_number (CHR '','' # r)" "ends_number (CHR '']'' # r)" "ends_number (CHR ''}'' # r)"
  "ends_number []"
  by (simp_all add: ends_number_def is_digit_def)

lemma parse_elements_join:
  assumes "xs \<noteq> []"
    and "\<And>x f rest. x \<in> set xs \<Longrightarrow> ends_number rest \<Longrightarrow> 2 * length (stringify x) \<le> f
            \<Longrightarrow> parse_value f (stringify x @ rest) = Some (x, rest)"
    and "2 * length (join '','' (map stringify xs)) + 1 \<le> f"
  shows "parse_elements f (join '','' (map stringify xs) @ CHR '']'' # rest) = Some (xs, rest)"
  using assms
proof (induction xs arbitrary: f rule: list_nonempty_induct)
  case (single x)
  then obtain f' where f: "f = Suc f'" "2 * length (stringify x) \<le> f'"
    by (cases f) auto
  have "parse_value f' (stringify x @ CHR '']'' # rest) = Some (x, CHR '']'' # rest)"
    by (rule single.prems(1)) (use f in simp_all)
  then show ?case using f by simp
next
  case (cons x xs)
  obtain y ys where xs: "xs = y # ys" using cons(1) by (cases xs) auto
  let ?tail = "join '','' (map stringify xs)"
  from cons.prems(2) xs obtain f' where f: "f = Suc f'" "2 * length (stringify x) \<le> f'"
      "2 * length ?tail + 1 \<le> f'"
    by (cases f) auto
  have v: "parse_value f' (stringify x @ CHR '','' # ?tail @ CHR '']'' # rest)
             = Some (x, CHR '','' # ?tail @ CHR '']'' # rest)"
    by (rule cons.prems(1)) (use f in simp_all)
  have "parse_elements f' (?tail @ CHR '']'' # rest) = Some (xs, rest)"
    by (rule cons.IH) (use cons.prems(1) f(3) in simp_all)
  with v show ?case using f xs by simp
qed

lemma parse_members_join:
  assumes "kvs \<noteq> []"
    and "\<And>kv f rest. kv \<in> set kvs \<Longrightarrow> ends_number rest \<Longrightarrow> 2 * length (stringify (snd kv)) \<le> f
            \<Longrightarrow> parse_value f (stringify (snd kv) @ rest) = Some (snd kv, rest)"
    and "2 * length (join '','' (map (\<lambda>kv. quote (fst kv) @ '':'' @ stringify (snd kv)) kvs)) + 1 \<le> f"
  shows "parse_members f (join '','' (map (\<lambda>kv. quote (fst kv) @ '':'' @ stringify (snd kv)) kvs)
                            @ CHR ''}'' # rest) = Some (kvs, rest)"
  using assms
proof (induction kvs arbitrary: f rule: list_nonempty_induct)
  case (single kv)
  then obtain f' where f: "f = Suc f'" "2 * length (stringify (snd kv)) \<le> f'"
    by (cases f) (auto simp: quote_def)
  have "parse_value f' (stringify (snd kv) @ CHR ''}'' # rest) = Some (snd kv, CHR ''}'' # rest)"
    by (rule single.prems(1)) (use f in simp_all)
  then show ?case using f
    by (simp add: quote_def parse_string_body_escaped)
next
  case (cons kv kvs)
  obtain y ys where kvs: "kvs = y # ys" using cons(1) by (cases kvs) auto
  let ?m = "\<lambda>kv. quote (fst kv) @ '':'' @ stringify (snd kv)"
  let ?tail = "join '','' (map ?m kvs)"
  from cons.prems(2) kvs obtain f' where f: "f = Suc f'" "2 * length (stringify (snd kv)) \<le> f'"
      "2 * length ?tail + 1 \<le> f'"
    by (cases f) (auto simp: quote_def)
  have v: "parse_value f' (stringify (snd kv) @ CHR '','' # ?tail @ CHR ''}'' # rest)
             = Some (snd kv, CHR '','' # ?tail @ CHR ''}'' # rest)"
    by (rule cons.prems(1)) (use f in simp_all)
  have "parse_members f' (?tail @ CHR ''}'' # rest) = Some (kvs, rest)"
    by (rule cons.IH) (use cons.prems(1) f(3) in simp_all)
  with v show ?case using f kvs
    by (simp add: quote_def parse_string_body_escaped)
qed

lemma parse_value_stringify:
  "ends_number rest \<Longrightarrow> 2 * length (stringify v) \<le> f
     \<Longrightarrow> parse_value f (stringify v @ rest) = Some (v, rest)"
proof (induction v arbitrary: f rest)
  case JNull
  then obtain f' where "f = Suc f'" by (cases f) auto
  then show ?case by (simp add: startsWith_def)
next
  case (JBool b)
  then obtain f' where "f = Suc f'" by (cases f; cases b) auto
  then show ?case by (simp add: startsWith_def)
next
  case (JNum i)
  obtain c cs where "int_toString i = c # cs" by (rule int_toString_first)
  with JNum obtain f' where "f = Suc f'" by (cases f) auto
  then show ?case using parse_value_number[OF JNum(1)] by simp
next
  case (JStr str)
  then obtain f' where "f = Suc f'" by (cases f) (auto simp: quote_def)
  then show ?case
    by (simp add: quote_def startsWith_def dq_def[symmetric] parse_string_body_escaped)
       (simp add: dq_def)
next
  case (JArr xs)
  show ?case
  proof (cases "xs = []")
    case True
    with JArr obtain f' where "f = Suc f'" by (cases f) auto
    with True show ?thesis by (simp add: startsWith_def dq_def)
  next
    case False
    let ?body = "join '','' (map stringify xs)"
    from JArr(3) obtain f' where f: "f = Suc f'" "2 * length ?body + 1 \<le> f'"
      by (cases f) auto
    obtain x xs' where xs: "xs = x # xs'" using False by (cases xs) auto
    obtain c cs where c: "stringify x = c # cs" "c \<noteq> CHR '']''" by (rule stringify_first)
    have "\<exists>cs'. ?body = c # cs'" using xs c by (cases xs') auto
    then obtain cs' where body: "?body = c # cs'" by blast
    have el: "parse_elements f' (?body @ CHR '']'' # rest) = Some (xs, rest)"
      using parse_elements_join[OF False _ f(2)] JArr(1) by blast
    have "parse_value (Suc f') (CHR ''['' # ?body @ CHR '']'' # rest) = Some (JArr xs, rest)"
      using el body c(2) by (simp add: startsWith_def dq_def)
    then show ?thesis using f by simp
  qed
next
  case (JObj kvs)
  show ?case
  proof (cases "kvs = []")
    case True
    with JObj obtain f' where "f = Suc f'" by (cases f) auto
    with True show ?thesis by (simp add: startsWith_def dq_def)
  next
    case False
    let ?m = "\<lambda>kv. quote (fst kv) @ '':'' @ stringify (snd kv)"
    let ?body = "join '','' (map ?m kvs)"
    from JObj(3) obtain f' where f: "f = Suc f'" "2 * length ?body + 1 \<le> f'"
      by (cases f) auto
    obtain kv kvs' where kvs: "kvs = kv # kvs'" using False by (cases kvs) auto
    have "\<exists>cs'. ?body = dq # cs'" using kvs by (cases kvs') (auto simp: quote_def)
    then obtain cs' where body: "?body = dq # cs'" by blast
    have ih: "\<And>kv f rest. kv \<in> set kvs \<Longrightarrow> ends_number rest \<Longrightarrow> 2 * length (stringify (snd kv)) \<le> f
            \<Longrightarrow> parse_value f (stringify (snd kv) @ rest) = Some (snd kv, rest)"
    proof -
      fix kv :: "string \<times> json" and f rest
      assume a: "kv \<in> set kvs" "ends_number rest" "2 * length (stringify (snd kv)) \<le> f"
      obtain k v where kv: "kv = (k, v)" by (cases kv)
      with a(1) have "v \<in> Basic_BNFs.snds kv" by simp
      from JObj(1)[OF a(1) this a(2), of f] a(3) kv
      show "parse_value f (stringify (snd kv) @ rest) = Some (snd kv, rest)" by simp
    qed
    have el: "parse_members f' (?body @ CHR ''}'' # rest) = Some (kvs, rest)"
      using parse_members_join[OF False ih f(2)] by blast
    have "parse_value (Suc f') (CHR ''{'' # ?body @ CHR ''}'' # rest) = Some (JObj kvs, rest)"
      using el body by (simp add: startsWith_def dq_def)
    then show ?thesis using f by simp
  qed
qed

lemma parse_stringify: "parse (stringify v) = Some v"
  using parse_value_stringify[of "[]" v "2 * length (stringify v) + 2"]
  by (simp add: parse_def)

section \<open>Round trip and classification in the frame codec\<close>

lemma split_delim_free: "delim_free str \<Longrightarrow> split_delim str = [str]"
  by (induction str) auto

lemma match_delim_tilde: "match_delim str = Some rest \<Longrightarrow> CHR ''~'' \<in> set str"
  by (cases str) (auto simp: match_delim_def startsWith_def split: if_splits)

lemma delim_free_no_tilde: "CHR ''~'' \<notin> set str \<Longrightarrow> delim_free str"
proof (induction str)
  case Nil
  then show ?case by simp
next
  case (Cons c cs)
  then have "match_delim (c # cs) = None"
    using match_delim_tilde[of "c # cs"] by (cases "match_delim (c # cs)") auto
  with Cons show ?case by simp
qed

lemma match_delim_frame:
  "match_delim (''~m~'' @ decimal n @ ''~m~'' @ data) = Some data"
proof -
  have e: "ends_number (''~m~'' @ data)" by (simp add: ends_number_def is_digit_def)
  from takeWhile_digits[OF _ e, of "decimal n"] decimal_digits[of n]
  have "takeWhile is_digit (decimal n @ ''~m~'' @ data) = decimal n"
       "dropWhile is_digit (decimal n @ ''~m~'' @ data) = ''~m~'' @ data" by auto
  then show ?thesis using decimal_digits[of n]
    by (simp add: match_delim_def startsWith_def Let_def)
qed

lemma split_delim_frame:
  assumes "delim_free data"
  shows "split_delim (''~m~'' @ decimal n @ ''~m~'' @ data) = [[], data]"
proof -
  have "split_delim (CHR ''~'' # ''m~'' @ decimal n @ ''~m~'' @ data) = [] # split_delim data"
    using match_delim_frame[of n data] by simp
  then show ?thesis using split_delim_free[OF assms] by simp
qed



text \<open>
  Claim C6, as the code has it. For every method name and parameter list whose serialized
  text \<open>{"m":name,"p":params}\<close> contains no match of the delimiter pattern
  \<open>~m~<digits>~m~\<close>, encoding the command with \<open>createMessage\<close> and decoding the frame
  with \<open>parseMessage\<close> yields exactly one application-event payload, and the event made
  from it has the original name and the original parameter list.
\<close>

theorem C6_round_trip:
  assumes "delim_free (stringify (JObj [(''m'', JStr name), (''p'', JArr params)]))"
  shows "parseMessage (createMessage name params)
           = Inr [EventPayload (JObj [(''m'', JStr name), (''p'', JArr params)])]
       \<and> createTradingEvent (EventPayload (JObj [(''m'', JStr name), (''p'', JArr params)]))
           = Inr (Some (JStr name), Some (JArr params))"
proof -
  let ?obj = "JObj [(''m'', JStr name), (''p'', JArr params)]"
  let ?data = "stringify ?obj"
  have msg: "createMessage name params = ''~m~'' @ decimal (length ?data) @ ''~m~'' @ ?data"
    by (simp add: createMessage_def Let_def)
  have sp: "split_delim (createMessage name params) = [[], ?data]"
    unfolding msg by (rule split_delim_frame[OF assms])
  have "\<exists>cs. ?data = CHR ''{'' # cs" by simp
  then have noping: "take 3 ?data \<noteq> ''~h~''" by auto
  have cl: "classify ?data = Inr (EventPayload ?obj)"
    using noping parse_stringify[of ?obj] by (simp add: classify_def get_prop_def)
  have "length (createMessage name params) \<noteq> 0" unfolding msg by simp
  then have "parseMessage (createMessage name params) = Inr [EventPayload ?obj]"
    using sp cl by (simp add: parseMessage_def)
  moreover have "createTradingEvent (EventPayload ?obj) = Inr (Some (JStr name), Some (JArr params))"
    by (simp add: createTradingEvent_def get_prop_def)
  ultimately show ?thesis by simp
qed

theorem C6_round_trip_witness:
  "parseMessage (createMessage ''request_more_data'' [JStr ''cs_k3x'', JStr ''sds_1'', JNum 5000])
     = Inr [EventPayload (JObj [(''m'', JStr ''request_more_data''),
                                (''p'', JArr [JStr ''cs_k3x'', JStr ''sds_1'', JNum 5000])])]"
proof -
  have "delim_free (stringify (JObj [(''m'', JStr ''request_more_data''),
                                     (''p'', JArr [JStr ''cs_k3x'', JStr ''sds_1'', JNum 5000])]))"
    by code_simp
  from C6_round_trip[OF this] show ?thesis by simp
qed

text \<open>
  Claim C6 as stated fails: a method name that contains the delimiter pattern is cut in
  two by the split, and decoding the frame throws a SyntaxError.
\<close>

theorem C6_delimiter_in_name_breaks_round_trip:
  "parseMessage (createMessage ''~m~1~m~'' []) = Inl (SyntaxError ''Unexpected token in JSON'')"
  by code_simp




end
